theory Spec2Isabelle
  imports Complex_Main
begin

section \<open>Python values used by the script\<close>

text \<open>
  The script \<^verbatim>\<open>SP-cvd_risk_app_final_ready.py\<close> computes with Python floats and
  ints.  Ints are modelled as \<^typ>\<open>int\<close>.  The arithmetic on floats is given twice.  The
  definitions of the first sections compute in exact real arithmetic; they carry the
  statements about branches, errors and inequalities.  The definitions whose names end in
  \<open>_double\<close> round the result of every operation to binary64, as the interpreter does; they
  carry the statements about the values that are returned.  The exceptions Python can
  raise in the arithmetic of the script are values of \<open>error\<close>.
\<close>

datatype error = ValueError | TypeError | ZeroDivisionError | KeyError

text \<open>\<^verbatim>\<open>math.log(x)\<close>: a math domain error for \<open>x \<le> 0\<close>.\<close>

definition py_log :: "real \<Rightarrow> error + real" where
  "py_log x = (if x \<le> 0 then Inl ValueError else Inr (ln x))"

text \<open>\<^verbatim>\<open>x / y\<close> on numbers: ZeroDivisionError for a zero divisor.\<close>

definition py_div :: "real \<Rightarrow> real \<Rightarrow> error + real" where
  "py_div x y = (if y = 0 then Inl ZeroDivisionError else Inr (x / y))"

text \<open>
  \<^verbatim>\<open>round(x, 1)\<close>: the nearest multiple of one tenth, a tie going to the even
  multiple.
\<close>

definition round_half_even :: "real \<Rightarrow> int" where
  "round_half_even x =
     (let f = \<lfloor>x\<rfloor>; d = x - of_int f
      in if d < 1 / 2 then f
         else if 1 / 2 < d then f + 1
         else if even f then f else f + 1)"

definition py_round1 :: "real \<Rightarrow> real" where
  "py_round1 x = of_int (round_half_even (x * 10)) / 10"

text \<open>\<^verbatim>\<open>d[k]\<close> on a dict kept as an association list: KeyError for a missing key.\<close>

definition subscript :: "('k \<times> 'v) list \<Rightarrow> 'k \<Rightarrow> error + 'v" where
  "subscript d k = (case map_of d k of None \<Rightarrow> Inl KeyError | Some v \<Rightarrow> Inr v)"

section \<open>Intervention data\<close>

record intervention =
  name :: string
  arr_lifetime :: int
  arr_5yr :: int

text \<open>
  Non-ASCII characters of the names are kept as the UTF-8 bytes of the source file.
\<close>

definition interventions :: "intervention list" where
  "interventions =
    [\<lparr>name = ''Smoking cessation'', arr_lifetime = 17, arr_5yr = 5\<rparr>,
     \<lparr>name = ''Antiplatelet (ASA or clopidogrel)'', arr_lifetime = 6, arr_5yr = 2\<rparr>,
     \<lparr>name = ''BP control (ACEi/ARB '' @ [CHR 0xC3, CHR 0x82, CHR 0xC2, CHR 0xB1] @ '' CCB)'',
        arr_lifetime = 12, arr_5yr = 4\<rparr>,
     \<lparr>name = ''Semaglutide 2.4 mg'', arr_lifetime = 4, arr_5yr = 1\<rparr>,
     \<lparr>name = ''Weight loss to ideal BMI'', arr_lifetime = 10, arr_5yr = 3\<rparr>,
     \<lparr>name = ''Empagliflozin'', arr_lifetime = 6, arr_5yr = 2\<rparr>,
     \<lparr>name = ''Icosapent ethyl (TG ''
          @ [CHR 0xC3, CHR 0xA2, CHR 0xE2, CHR 0x80, CHR 0xB0, CHR 0xC2, CHR 0xA5] @ ''1.5)'',
        arr_lifetime = 5, arr_5yr = 2\<rparr>,
     \<lparr>name = ''Mediterranean diet'', arr_lifetime = 9, arr_5yr = 3\<rparr>,
     \<lparr>name = ''Physical activity'', arr_lifetime = 9, arr_5yr = 3\<rparr>,
     \<lparr>name = ''Alcohol moderation'', arr_lifetime = 5, arr_5yr = 2\<rparr>,
     \<lparr>name = ''Stress reduction'', arr_lifetime = 3, arr_5yr = 1\<rparr>]"

definition ldl_therapies :: "(string \<times> int) list" where
  "ldl_therapies =
    [(''Atorvastatin 20 mg'', 40),
     (''Atorvastatin 80 mg'', 50),
     (''Rosuvastatin 10 mg'', 40),
     (''Rosuvastatin 20''
        @ [CHR 0xC3, CHR 0xA2, CHR 0xE2, CHR 0x82, CHR 0xAC, CHR 0xE2, CHR 0x80, CHR 0x9C]
        @ ''40 mg'', 55),
     (''Simvastatin 40 mg'', 35),
     (''Ezetimibe'', 20),
     (''PCSK9 inhibitor'', 60),
     (''Bempedoic acid'', 18)]"

section \<open>SMART risk score functions\<close>

datatype sex = Male | Female

text \<open>
  \<^verbatim>\<open>estimate_smart_risk\<close>.  The callers pass ints for age, sbp, egfr and
  vasc_count (slider and integer number inputs, a sum of booleans) and floats for the
  rest.  \<^verbatim>\<open>crp_log = math.log(crp + 1) if crp else 0\<close> tests \<open>crp\<close> for being nonzero.
\<close>

definition linear_predictor ::
  "int \<Rightarrow> real \<Rightarrow> int \<Rightarrow> real \<Rightarrow> real \<Rightarrow> real \<Rightarrow> real \<Rightarrow> int \<Rightarrow> real \<Rightarrow> int \<Rightarrow> real" where
  "linear_predictor age sex_val sbp total_chol hdl smoking_val diabetes_val egfr crp_log vasc_count =
     0.064 * of_int age + 0.34 * sex_val + 0.02 * of_int sbp + 0.25 * total_chol
       - 0.25 * hdl + 0.44 * smoking_val + 0.51 * diabetes_val
       - 0.2 * (of_int egfr / 10) + 0.25 * crp_log + 0.4 * of_int vasc_count"

definition estimate_smart_risk ::
  "int \<Rightarrow> sex \<Rightarrow> int \<Rightarrow> real \<Rightarrow> real \<Rightarrow> bool \<Rightarrow> bool \<Rightarrow> int \<Rightarrow> real \<Rightarrow> int \<Rightarrow> error + real" where
  "estimate_smart_risk age sex sbp total_chol hdl smoker diabetes egfr crp vasc_count =
     (let sex_val = (if sex = Male then 1 else 0);
          smoking_val = (if smoker then 1 else 0);
          diabetes_val = (if diabetes then 1 else 0)
      in case (if crp \<noteq> 0 then py_log (crp + 1) else Inr 0) of
           Inl e \<Rightarrow> Inl e
         | Inr crp_log \<Rightarrow>
             (let lp = linear_predictor age sex_val sbp total_chol hdl smoking_val
                         diabetes_val egfr crp_log vasc_count;
                  risk10 = 1 - 0.900 powr exp (lp - 5.8)
              in Inr (py_round1 (risk10 * 100))))"

text \<open>
  \<^verbatim>\<open>estimate_5yr_from_10yr\<close>.  For \<open>1 - p < 0\<close> the power \<^verbatim>\<open>(1-p)**0.5\<close> is a
  complex number in Python 3 and \<^verbatim>\<open>round\<close> raises TypeError on it.
\<close>

definition estimate_5yr_from_10yr :: "real \<Rightarrow> error + real" where
  "estimate_5yr_from_10yr risk10 =
     (let p = risk10 / 100
      in if 1 - p < 0 then Inl TypeError
         else (let risk5 = 1 - (1 - p) powr 0.5 in Inr (py_round1 (risk5 * 100))))"

section \<open>Lipid-lowering therapy stack\<close>

text \<open>
  The check boxes of the page are a function from the label to the state of the box.
  \<^verbatim>\<open>on_therapy\<close> and \<^verbatim>\<open>additional\<close> are list comprehensions over the keys of
  \<^verbatim>\<open>ldl_therapies\<close>, in the order of the dict.
\<close>

definition on_therapy :: "(string \<Rightarrow> bool) \<Rightarrow> string list" where
  "on_therapy checkbox = filter (\<lambda>d. checkbox d) (map fst ldl_therapies)"

definition additional :: "(string \<Rightarrow> bool) \<Rightarrow> string list" where
  "additional checkbox =
     filter (\<lambda>d. d \<notin> set (on_therapy checkbox) \<and> checkbox (d @ '' (new)''))
       (map fst ldl_therapies)"

text \<open>\<^verbatim>\<open>for d in on_therapy: adjusted_ldl *= (1 - ldl_therapies[d]/100)\<close>\<close>

fun apply_on_therapy :: "string list \<Rightarrow> real \<Rightarrow> error + real" where
  "apply_on_therapy [] adjusted_ldl = Inr adjusted_ldl"
| "apply_on_therapy (d # ds) adjusted_ldl =
     (case subscript ldl_therapies d of
        Inl e \<Rightarrow> Inl e
      | Inr pot \<Rightarrow> apply_on_therapy ds (adjusted_ldl * (1 - of_int pot / 100)))"

text \<open>\<^verbatim>\<open>for d in additional: final_ldl *= (1 - (ldl_therapies[d]/100)*0.5)\<close>\<close>

fun apply_additional :: "string list \<Rightarrow> real \<Rightarrow> error + real" where
  "apply_additional [] final_ldl = Inr final_ldl"
| "apply_additional (d # ds) final_ldl =
     (case subscript ldl_therapies d of
        Inl e \<Rightarrow> Inl e
      | Inr pot \<Rightarrow> apply_additional ds (final_ldl * (1 - (of_int pot / 100) * 0.5)))"

definition adjusted_ldl :: "(string \<Rightarrow> bool) \<Rightarrow> real \<Rightarrow> error + real" where
  "adjusted_ldl checkbox baseline_ldl =
     (case apply_on_therapy (on_therapy checkbox) baseline_ldl of
        Inl e \<Rightarrow> Inl e
      | Inr a \<Rightarrow> Inr (max a 1.0))"

definition final_ldl :: "(string \<Rightarrow> bool) \<Rightarrow> real \<Rightarrow> error + real" where
  "final_ldl checkbox baseline_ldl =
     (case adjusted_ldl checkbox baseline_ldl of
        Inl e \<Rightarrow> Inl e
      | Inr a \<Rightarrow>
          (case apply_additional (additional checkbox) a of
             Inl e \<Rightarrow> Inl e
           | Inr f \<Rightarrow> Inr (max f 1.0)))"

section \<open>Composition of the risk reductions\<close>

datatype horizon = H5yr | H10yr | Lifetime

text \<open>
  The loop over the catalog: an entry whose name is in the selection multiplies the
  remaining risk fraction.
\<close>

fun apply_interventions :: "intervention list \<Rightarrow> string list \<Rightarrow> horizon \<Rightarrow> real \<Rightarrow> real" where
  "apply_interventions [] selected_iv horizon remaining = remaining"
| "apply_interventions (iv # ivs) selected_iv horizon remaining =
     (if name iv \<in> set selected_iv
      then (let arr = (if horizon = H5yr then arr_5yr iv else arr_lifetime iv)
            in apply_interventions ivs selected_iv horizon (remaining * (1 - of_int arr / 100)))
      else apply_interventions ivs selected_iv horizon remaining)"

definition ldl_rrr :: "real \<Rightarrow> real \<Rightarrow> real" where
  "ldl_rrr baseline_ldl final_ldl_v =
     (let ldl_drop = baseline_ldl - final_ldl_v in min (22 * ldl_drop) 35)"

definition bp_rrr :: "int \<Rightarrow> int \<Rightarrow> real" where
  "bp_rrr sbp_current sbp_target = min (15 * (of_int (sbp_current - sbp_target) / 10)) 20"

text \<open>The remaining risk fraction after the three steps, before rounding.\<close>

definition remaining_risk ::
  "real \<Rightarrow> horizon \<Rightarrow> string list \<Rightarrow> real \<Rightarrow> real \<Rightarrow> int \<Rightarrow> int \<Rightarrow> real" where
  "remaining_risk baseline_risk horizon selected_iv baseline_ldl final_ldl_v sbp_current sbp_target =
     (let remaining = baseline_risk / 100;
          remaining = apply_interventions interventions selected_iv horizon remaining;
          remaining = remaining * (1 - ldl_rrr baseline_ldl final_ldl_v / 100);
          remaining = remaining * (1 - bp_rrr sbp_current sbp_target / 100)
      in remaining)"

record risk_result =
  final_risk :: real
  arr :: real
  rrr :: real

text \<open>
  Lines 120 to 139 of the script, with the variables they read as parameters.
  \<^verbatim>\<open>rrr = round(arr/baseline_risk*100, 1) if baseline_risk else 0\<close> tests
  \<open>baseline_risk\<close> for being nonzero.
\<close>

definition compose_final_risk ::
  "real \<Rightarrow> horizon \<Rightarrow> string list \<Rightarrow> real \<Rightarrow> real \<Rightarrow> int \<Rightarrow> int \<Rightarrow> error + risk_result" where
  "compose_final_risk baseline_risk horizon selected_iv baseline_ldl final_ldl_v sbp_current sbp_target =
     (let remaining = remaining_risk baseline_risk horizon selected_iv baseline_ldl final_ldl_v
                        sbp_current sbp_target;
          final_risk_v = py_round1 (remaining * 100);
          arr_v = py_round1 (baseline_risk - final_risk_v)
      in case (if baseline_risk \<noteq> 0
               then (case py_div arr_v baseline_risk of
                       Inl e \<Rightarrow> Inl e
                     | Inr q \<Rightarrow> Inr (py_round1 (q * 100)))
               else Inr 0) of
           Inl e \<Rightarrow> Inl e
         | Inr rrr_v \<Rightarrow> Inr \<lparr>final_risk = final_risk_v, arr = arr_v, rrr = rrr_v\<rparr>)"

section \<open>Binary floating point\<close>

text \<open>
  A Python float is a binary64 number.  \<open>double x\<close> is the binary64 number nearest to the
  real \<open>x\<close>, a tie going to the even significand: 53 significant bits, the exponent not
  below \<open>-1022\<close> (numbers under \<open>2 ^ -1022\<close> are subnormal).  The sum, difference, product
  and quotient of two floats and the value of a decimal literal are the \<open>double\<close> of
  the exact result; an int operand below \<open>2 ^ 53\<close> is converted without error, and the
  quotient of two ints is correctly rounded.  A real of magnitude \<open>2 ^ 1024\<close> or more has no finite binary64 value;
  \<open>double\<close> does not model that overflow.
\<close>

definition double :: "real \<Rightarrow> real" where
  "double x =
     (if x = 0 then 0
      else (let e = max \<lfloor>log 2 \<bar>x\<bar>\<rfloor> (- 1022); u = 2 powi (e - 52)
            in of_int (round_half_even (x / u)) * u))"

text \<open>
  \<^verbatim>\<open>round(x, 1)\<close> on a float: the exact value of \<open>x\<close> is rounded to the nearest multiple
  of one tenth, a tie going to the even multiple, and the float nearest to that decimal is
  returned.
\<close>

definition float_round1 :: "real \<Rightarrow> real" where
  "float_round1 x = double (of_int (round_half_even (x * 10)) / 10)"

text \<open>\<^verbatim>\<open>x / y\<close> on floats: ZeroDivisionError for a zero divisor.\<close>

definition float_div :: "real \<Rightarrow> real \<Rightarrow> error + real" where
  "float_div x y = (if y = 0 then Inl ZeroDivisionError else Inr (double (x / y)))"

text \<open>
  \<^verbatim>\<open>estimate_smart_risk\<close> in binary64.  The sum of line 37 to 39 is evaluated from left
  to right.  \<^verbatim>\<open>egfr/10\<close> divides two ints and is correctly rounded.  The functions
  \<^verbatim>\<open>math.log\<close>, \<^verbatim>\<open>math.exp\<close> and the power \<^verbatim>\<open>**\<close> belong to the C library and are
  parameters: \<open>m_log\<close>, and \<open>m_exp\<close> and \<open>m_pow\<close>, which can raise OverflowError.
\<close>

definition egfr_term_double :: "int \<Rightarrow> real" where
  "egfr_term_double egfr = double (double 0.2 * double (of_int egfr / 10))"

definition linear_predictor_double ::
  "int \<Rightarrow> int \<Rightarrow> int \<Rightarrow> real \<Rightarrow> real \<Rightarrow> int \<Rightarrow> int \<Rightarrow> int \<Rightarrow> real \<Rightarrow> int \<Rightarrow> real" where
  "linear_predictor_double age sex_val sbp total_chol hdl smoking_val diabetes_val egfr crp_log
       vasc_count =
     (let lp = double (double 0.064 * of_int age);
          lp = double (lp + double (double 0.34 * of_int sex_val));
          lp = double (lp + double (double 0.02 * of_int sbp));
          lp = double (lp + double (double 0.25 * total_chol));
          lp = double (lp - double (double 0.25 * hdl));
          lp = double (lp + double (double 0.44 * of_int smoking_val));
          lp = double (lp + double (double 0.51 * of_int diabetes_val));
          lp = double (lp - egfr_term_double egfr);
          lp = double (lp + double (double 0.25 * crp_log));
          lp = double (lp + double (double 0.4 * of_int vasc_count))
      in lp)"

definition estimate_smart_risk_double ::
  "(real \<Rightarrow> real) \<Rightarrow> (real \<Rightarrow> error + real) \<Rightarrow> (real \<Rightarrow> real \<Rightarrow> error + real)
     \<Rightarrow> int \<Rightarrow> sex \<Rightarrow> int \<Rightarrow> real \<Rightarrow> real \<Rightarrow> bool \<Rightarrow> bool \<Rightarrow> int \<Rightarrow> real \<Rightarrow> int \<Rightarrow> error + real" where
  "estimate_smart_risk_double m_log m_exp m_pow age sex sbp total_chol hdl smoker diabetes egfr
       crp vasc_count =
     (let sex_val = (if sex = Male then 1 else 0);
          smoking_val = (if smoker then 1 else 0);
          diabetes_val = (if diabetes then 1 else 0)
      in case (if crp \<noteq> 0
               then (let a = double (crp + 1) in if a \<le> 0 then Inl ValueError else Inr (m_log a))
               else Inr 0) of
           Inl e \<Rightarrow> Inl e
         | Inr crp_log \<Rightarrow>
             (let lp = linear_predictor_double age sex_val sbp total_chol hdl smoking_val
                         diabetes_val egfr crp_log vasc_count
              in case m_exp (double (lp - double 5.8)) of
                   Inl e \<Rightarrow> Inl e
                 | Inr y \<Rightarrow>
                     (case m_pow (double 0.900) y of
                        Inl e \<Rightarrow> Inl e
                      | Inr z \<Rightarrow>
                          (let risk10 = double (1 - z)
                           in Inr (float_round1 (double (risk10 * 100)))))))"

text \<open>Lines 120 to 139 of the script in binary64.\<close>

fun apply_interventions_double ::
  "intervention list \<Rightarrow> string list \<Rightarrow> horizon \<Rightarrow> real \<Rightarrow> real" where
  "apply_interventions_double [] selected_iv horizon remaining = remaining"
| "apply_interventions_double (iv # ivs) selected_iv horizon remaining =
     (if name iv \<in> set selected_iv
      then (let arr = (if horizon = H5yr then arr_5yr iv else arr_lifetime iv)
            in apply_interventions_double ivs selected_iv horizon
                 (double (remaining * double (1 - double (of_int arr / 100)))))
      else apply_interventions_double ivs selected_iv horizon remaining)"

definition ldl_rrr_double :: "real \<Rightarrow> real \<Rightarrow> real" where
  "ldl_rrr_double baseline_ldl final_ldl_v =
     (let ldl_drop = double (baseline_ldl - final_ldl_v) in min (double (22 * ldl_drop)) 35)"

definition bp_rrr_double :: "int \<Rightarrow> int \<Rightarrow> real" where
  "bp_rrr_double sbp_current sbp_target =
     min (double (15 * double (of_int (sbp_current - sbp_target) / 10))) 20"

definition remaining_risk_double ::
  "real \<Rightarrow> horizon \<Rightarrow> string list \<Rightarrow> real \<Rightarrow> real \<Rightarrow> int \<Rightarrow> int \<Rightarrow> real" where
  "remaining_risk_double baseline_risk horizon selected_iv baseline_ldl final_ldl_v
       sbp_current sbp_target =
     (let remaining = double (baseline_risk / 100);
          remaining = apply_interventions_double interventions selected_iv horizon remaining;
          remaining = double (remaining
                        * double (1 - double (ldl_rrr_double baseline_ldl final_ldl_v / 100)));
          remaining = double (remaining
                        * double (1 - double (bp_rrr_double sbp_current sbp_target / 100)))
      in remaining)"

definition compose_final_risk_double ::
  "real \<Rightarrow> horizon \<Rightarrow> string list \<Rightarrow> real \<Rightarrow> real \<Rightarrow> int \<Rightarrow> int \<Rightarrow> error + risk_result" where
  "compose_final_risk_double baseline_risk horizon selected_iv baseline_ldl final_ldl_v
       sbp_current sbp_target =
     (let remaining = remaining_risk_double baseline_risk horizon selected_iv baseline_ldl
                        final_ldl_v sbp_current sbp_target;
          final_risk_v = float_round1 (double (remaining * 100));
          arr_v = float_round1 (double (baseline_risk - final_risk_v))
      in case (if baseline_risk \<noteq> 0
               then (case float_div arr_v baseline_risk of
                       Inl e \<Rightarrow> Inl e
                     | Inr q \<Rightarrow> Inr (float_round1 (double (q * 100))))
               else Inr 0) of
           Inl e \<Rightarrow> Inl e
         | Inr rrr_v \<Rightarrow> Inr \<lparr>final_risk = final_risk_v, arr = arr_v, rrr = rrr_v\<rparr>)"

section \<open>The formulas of the specification\<close>

text \<open>
  These definitions follow the words of the specification, not the script; the theorems
  below compare them with the definitions above.
\<close>

text \<open>The eGFR term as the specification writes it, \<open>0.02 * eGFR\<close>, in binary64.\<close>

definition spec_egfr_term_double :: "int \<Rightarrow> real" where
  "spec_egfr_term_double egfr = double (double 0.02 * of_int egfr)"

text \<open>
  The per-intervention step as the specification words it: one factor for each entry of
  the selection, looked up in the catalog by name; an unknown name fails.  The selection
  of the specification is a set; \<open>in_catalog_order\<close> lists it in the order of the catalog.
\<close>

fun spec_apply_interventions_double :: "string list \<Rightarrow> horizon \<Rightarrow> real \<Rightarrow> real option" where
  "spec_apply_interventions_double [] horizon r = Some r"
| "spec_apply_interventions_double (n # ns) horizon r =
     (case find (\<lambda>iv. name iv = n) interventions of
        None \<Rightarrow> None
      | Some iv \<Rightarrow>
          spec_apply_interventions_double ns horizon
            (double (r * double (1 - double (of_int (if horizon = H5yr then arr_5yr iv
                                                      else arr_lifetime iv) / 100)))))"

definition in_catalog_order :: "string list \<Rightarrow> string list" where
  "in_catalog_order selected_iv = filter (\<lambda>n. n \<in> set selected_iv) (map name interventions)"

text \<open>
  The two-stage therapy stack as the specification words it, over catalog entries:
  \<open>w\<close> is 1 for therapies already active and one half for newly added ones.
\<close>

fun spec_stack :: "real \<Rightarrow> (string \<times> int) list \<Rightarrow> real \<Rightarrow> real" where
  "spec_stack w [] ldl = ldl"
| "spec_stack w ((n, potency) # ts) ldl = spec_stack w ts (ldl * (1 - of_int potency / 100 * w))"

definition spec_final_ldl :: "(string \<times> int) list \<Rightarrow> (string \<times> int) list \<Rightarrow> real \<Rightarrow> real" where
  "spec_final_ldl active new baseline_ldl =
     max (spec_stack 0.5 new (max (spec_stack 1 active baseline_ldl) 1.0)) 1.0"

section \<open>Rounding\<close>

lemma round_half_even_of_int [simp]: "round_half_even (of_int k) = k"
  by (simp add: round_half_even_def)

lemma round_half_even_bounds:
  "of_int (round_half_even x) - 1 / 2 \<le> x \<and> x \<le> of_int (round_half_even x) + 1 / 2"
  unfolding round_half_even_def Let_def by (auto; linarith)

lemma round_half_even_mono:
  assumes "x \<le> y" shows "round_half_even x \<le> round_half_even y"
proof (cases "\<lfloor>x\<rfloor> < \<lfloor>y\<rfloor>")
  case True
  have "round_half_even x \<le> \<lfloor>x\<rfloor> + 1" by (simp add: round_half_even_def Let_def)
  moreover have "\<lfloor>y\<rfloor> \<le> round_half_even y" by (simp add: round_half_even_def Let_def)
  ultimately show ?thesis using True by linarith
next
  case False
  with assms have eq: "\<lfloor>x\<rfloor> = \<lfloor>y\<rfloor>" by (meson floor_mono le_less)
  then show ?thesis using assms
    by (auto simp add: round_half_even_def Let_def)
qed

lemma round_half_even_unique:
  assumes "of_int k - 1 / 2 < x" and "x < of_int k + 1 / 2"
  shows "round_half_even x = k"
proof -
  let ?r = "round_half_even x"
  from round_half_even_bounds [of x] assms
  have "real_of_int ?r < of_int k + 1" and "real_of_int k < of_int ?r + 1" by linarith+
  then have "?r < k + 1" and "k < ?r + 1" by linarith+
  then show ?thesis by simp
qed

lemma py_round1_mono: "x \<le> y \<Longrightarrow> py_round1 x \<le> py_round1 y"
  by (simp add: py_round1_def round_half_even_mono divide_right_mono)

lemma py_round1_tenth [simp]: "py_round1 (of_int k / 10) = of_int k / 10"
  by (simp add: py_round1_def)

lemma py_round1_unique:
  assumes "of_int k / 10 - 1 / 20 < x" and "x < of_int k / 10 + 1 / 20"
  shows "py_round1 x = of_int k / 10"
proof -
  have "round_half_even (x * 10) = k"
    by (rule round_half_even_unique) (use assms in linarith)+
  then show ?thesis by (simp add: py_round1_def)
qed

lemma py_round1_error: "py_round1 x - 1 / 20 \<le> x \<and> x \<le> py_round1 x + 1 / 20"
proof -
  define r where "r = real_of_int (round_half_even (x * 10))"
  have "r - 1 / 2 \<le> x * 10 \<and> x * 10 \<le> r + 1 / 2"
    unfolding r_def by (rule round_half_even_bounds)
  moreover have "py_round1 x = r / 10"
    by (simp add: py_round1_def r_def)
  ultimately show ?thesis by simp
qed

lemma round_half_even_small:
  assumes "- (1 / 2) \<le> x" and "x \<le> 1 / 2"
  shows "round_half_even x = 0"
proof -
  consider "x < 0" | "0 \<le> x"
    by linarith
  then show ?thesis
  proof cases
    case 1
    with assms have "\<lfloor>x\<rfloor> = - 1"
      by (simp add: floor_eq_iff)
    with assms show ?thesis
      by (simp add: round_half_even_def Let_def)
  next
    case 2
    with assms have "\<lfloor>x\<rfloor> = 0"
      by (simp add: floor_eq_iff)
    with assms show ?thesis
      by (simp add: round_half_even_def Let_def)
  qed
qed

lemma py_round1_residue [simp]: "py_round1 (x - py_round1 x) = 0"
proof -
  have "round_half_even ((x - py_round1 x) * 10) = 0"
  proof (rule round_half_even_small)
    from py_round1_error [of x] show "- (1 / 2) \<le> (x - py_round1 x) * 10" by simp
    from py_round1_error [of x] show "(x - py_round1 x) * 10 \<le> 1 / 2" by simp
  qed
  then show ?thesis
    by (simp add: py_round1_def)
qed

lemma py_round1_zero [simp]: "py_round1 0 = 0"
  by (simp add: py_round1_def round_half_even_def)

section \<open>The loop over the catalog\<close>

lemma apply_interventions_none [simp]: "apply_interventions ivs [] h r = r"
  by (induction ivs arbitrary: r) simp_all

lemma apply_interventions_factor:
  "apply_interventions ivs sel h r = r * apply_interventions ivs sel h 1"
proof (induction ivs arbitrary: r)
  case Nil
  show ?case by simp
next
  case (Cons iv ivs)
  show ?case
  proof (cases "name iv \<in> set sel")
    case True
    define c where "c = 1 - real_of_int (if h = H5yr then arr_5yr iv else arr_lifetime iv) / 100"
    have "apply_interventions (iv # ivs) sel h r = apply_interventions ivs sel h (r * c)"
      using True by (simp add: c_def Let_def)
    also have "\<dots> = r * c * apply_interventions ivs sel h 1"
      by (rule Cons.IH)
    also have "\<dots> = r * apply_interventions ivs sel h (1 * c)"
      using Cons.IH [of "1 * c"] by simp
    also have "apply_interventions ivs sel h (1 * c) = apply_interventions (iv # ivs) sel h 1"
      using True by (simp add: c_def Let_def)
    finally show ?thesis .
  next
    case False
    then show ?thesis using Cons.IH [of r] by simp
  qed
qed




lemma ldl_rrr_le: "ldl_rrr b f \<le> 35"
  by (simp add: ldl_rrr_def Let_def)

lemma remaining_risk_eq:
  "remaining_risk b h sel bl fl cur tgt =
     apply_interventions interventions sel h (b / 100)
       * (1 - ldl_rrr bl fl / 100) * (1 - bp_rrr cur tgt / 100)"
  by (simp add: remaining_risk_def Let_def)

section \<open>The LDL-C step\<close>



section \<open>The blood-pressure step\<close>

text \<open>
  Claim C7.  The blood-pressure step uses
  \<open>rrrBp = min (15 * ((sbpCurrent - sbpTarget) / 10)) 20\<close> percent.  The systolic pressures are
  ints in the script, so a gap of at least 13.33 mmHg is a gap of at least 14 mmHg, and
  \<open>rrrBp\<close> is then exactly 20; below that threshold it is less than 20.
\<close>

theorem bp_step_cap:
  "bp_rrr cur tgt = min (15 * (real_of_int (cur - tgt) / 10)) 20
   \<and> (13.33 \<le> real_of_int (cur1 - tgt1) \<longrightarrow> bp_rrr cur1 tgt1 = 20)
   \<and> (real_of_int (cur2 - tgt2) < 13.33 \<longrightarrow> bp_rrr cur2 tgt2 < 20)"
proof -
  have "bp_rrr cur1 tgt1 = 20" if "13.33 \<le> real_of_int (cur1 - tgt1)"
  proof -
    from that have "13 < real_of_int (cur1 - tgt1)" by simp
    then have "14 \<le> cur1 - tgt1" by linarith
    then have "14 \<le> real_of_int (cur1 - tgt1)" by linarith
    then show ?thesis by (simp add: bp_rrr_def min_def)
  qed
  moreover have "bp_rrr cur2 tgt2 < 20" if "real_of_int (cur2 - tgt2) < 13.33"
  proof -
    from that have "real_of_int (cur2 - tgt2) < 14" by simp
    then have "cur2 - tgt2 \<le> 13" by linarith
    then have "real_of_int (cur2 - tgt2) \<le> 13" by linarith
    then show ?thesis by (simp add: bp_rrr_def)
  qed
  ultimately show ?thesis by (simp add: bp_rrr_def)
qed

theorem bp_step_cap_witness:
  "(13.33 \<le> real_of_int (145 - 120) \<and> bp_rrr 145 120 = 20)
   \<and> (real_of_int (130 - 120) < 13.33 \<and> bp_rrr 130 120 < 20)"
  using bp_step_cap [of 145 120 145 120 130 120] by simp

section \<open>The final outputs\<close>

lemma compose_final_risk_eq:
  "compose_final_risk b h sel bl fl cur tgt =
     Inr \<lparr>final_risk = py_round1 (remaining_risk b h sel bl fl cur tgt * 100),
          arr = py_round1 (b - py_round1 (remaining_risk b h sel bl fl cur tgt * 100)),
          rrr = (if b \<noteq> 0
                 then py_round1 (py_round1 (b - py_round1 (remaining_risk b h sel bl fl cur tgt * 100))
                        / b * 100)
                 else 0)\<rparr>"
  by (simp add: compose_final_risk_def py_div_def Let_def)

text \<open>
  Claim C9, as stated, fails.  The guard of the script is \<^verbatim>\<open>if baseline_risk\<close>, a test
  for a nonzero value, so a negative baseline risk takes the division branch: for a
  baseline risk of \<open>-10\<close> and an SBP gap of 10 mmHg the result has \<open>rrr = 15\<close>, not 0.
\<close>

theorem rrr_guard_nonzero_counterexample:
  "compose_final_risk (- 10) H10yr [] 3.5 3.5 130 120
     = Inr \<lparr>final_risk = - 8.5, arr = - 1.5, rrr = 15\<rparr>"
  by (simp add: compose_final_risk_eq remaining_risk_eq ldl_rrr_def bp_rrr_def
      py_round1_def round_half_even_def Let_def)

text \<open>
  Claim C9, amended.  For every input the composition returns a result, never an error,
  with \<open>rrr = round (arr / baselineRisk * 100, 1)\<close> when the baseline risk is not zero and
  \<open>rrr = 0\<close> when it is zero.
\<close>

theorem rrr_defined:
  "\<exists>res. compose_final_risk b h sel bl fl cur tgt = Inr res
       \<and> rrr res = (if b \<noteq> 0 then py_round1 (arr res / b * 100) else 0)"
  by (simp add: compose_final_risk_eq)

theorem rrr_defined_witness:
  "\<exists>res. compose_final_risk 20 H10yr [] 3.5 3.5 130 120 = Inr res
       \<and> rrr res = py_round1 (arr res / 20 * 100)"
  using rrr_defined [of 20 H10yr "[]" "3.5" "3.5" 130 120] by simp


section \<open>Names outside the catalog\<close>

lemma apply_interventions_cong:
  assumes "\<forall>iv \<in> set ivs. name iv \<in> set sel \<longleftrightarrow> name iv \<in> set sel'"
  shows "apply_interventions ivs sel h r = apply_interventions ivs sel' h r"
  using assms by (induction ivs arbitrary: r) (simp_all add: Let_def)

lemma apply_interventions_known_only:
  "apply_interventions ivs sel h r
     = apply_interventions ivs (filter (\<lambda>n. n \<in> name ` set ivs) sel) h r"
  by (rule apply_interventions_cong) auto

lemma name_not_in_catalog: "''Not in the catalog'' \<notin> name ` set interventions"
  by (simp add: interventions_def)

text \<open>
  Claim C1, as stated, fails.  The loop of the script runs over the catalog and tests each
  entry's name for membership in the selection; a selected name that no entry carries is
  never looked at.  The composition returns a result, the one of the empty selection.
\<close>

theorem unknown_name_ignored_counterexample:
  "compose_final_risk 20 H10yr [''Not in the catalog''] 3.5 3.5 120 120
     = Inr \<lparr>final_risk = 20, arr = 0, rrr = 0\<rparr>"
proof -
  have "apply_interventions interventions [''Not in the catalog''] H10yr (20 / 100)
          = apply_interventions interventions [] H10yr (20 / 100)"
    by (rule apply_interventions_cong) (simp add: interventions_def)
  then have rem: "remaining_risk 20 H10yr [''Not in the catalog''] 3.5 3.5 120 120 = 1 / 5"
    by (simp add: remaining_risk_eq ldl_rrr_def bp_rrr_def)
  show ?thesis
    unfolding compose_final_risk_eq rem by (simp add: py_round1_def round_half_even_def Let_def)
qed

text \<open>
  Claim C1, amended.  For every selection the composition returns a result, never an
  error, and the result is the one for the selection without the names that are not in
  the catalog.
\<close>

theorem unknown_names_skipped:
  "compose_final_risk b h sel bl fl cur tgt
     = compose_final_risk b h (filter (\<lambda>n. n \<in> name ` set interventions) sel) bl fl cur tgt
   \<and> (\<exists>res. compose_final_risk b h sel bl fl cur tgt = Inr res)"
proof -
  have "remaining_risk b h sel bl fl cur tgt
     = remaining_risk b h (filter (\<lambda>n. n \<in> name ` set interventions) sel) bl fl cur tgt"
    using apply_interventions_known_only [of interventions sel h "b / 100"]
    by (simp add: remaining_risk_eq)
  then show ?thesis
    by (simp add: compose_final_risk_eq)
qed

theorem unknown_names_skipped_witness:
  "compose_final_risk 20 H5yr [''Stress reduction'', ''Not in the catalog''] 3.5 2.0 145 120
     = compose_final_risk 20 H5yr [''Stress reduction''] 3.5 2.0 145 120"
proof -
  have "filter (\<lambda>n. n \<in> name ` set interventions) [''Stress reduction'', ''Not in the catalog'']
          = [''Stress reduction'']"
    by (simp add: interventions_def)
  with unknown_names_skipped
    [of 20 H5yr "[''Stress reduction'', ''Not in the catalog'']" "3.5" "2.0" 145 120]
  show ?thesis
    by simp
qed

section \<open>The therapy stack\<close>

lemma ldl_therapies_distinct: "distinct (map fst ldl_therapies)"
  by (simp add: ldl_therapies_def)

lemma subscript_entry:
  assumes "distinct (map fst d)" and "(k, v) \<in> set d"
  shows "subscript d k = Inr v"
  using assms by (simp add: subscript_def)

lemma apply_on_therapy_entries:
  assumes "set ts \<subseteq> set ldl_therapies"
  shows "apply_on_therapy (map fst ts) x = Inr (spec_stack 1 ts x)"
  using assms
proof (induction ts arbitrary: x)
  case Nil
  show ?case by simp
next
  case (Cons t ts)
  obtain n v where t: "t = (n, v)"
    by (cases t)
  with Cons.prems have "subscript ldl_therapies n = Inr v"
    by (intro subscript_entry ldl_therapies_distinct) simp
  with Cons t show ?case
    by simp
qed

lemma apply_additional_entries:
  assumes "set ts \<subseteq> set ldl_therapies"
  shows "apply_additional (map fst ts) x = Inr (spec_stack 0.5 ts x)"
  using assms
proof (induction ts arbitrary: x)
  case Nil
  show ?case by simp
next
  case (Cons t ts)
  obtain n v where t: "t = (n, v)"
    by (cases t)
  with Cons.prems have "subscript ldl_therapies n = Inr v"
    by (intro subscript_entry ldl_therapies_distinct) simp
  with Cons t show ?case
    by simp
qed

lemma on_therapy_entries:
  "on_therapy checkbox = map fst (filter (\<lambda>(d, potency). checkbox d) ldl_therapies)"
  by (simp add: on_therapy_def filter_map comp_def case_prod_unfold)

lemma additional_entries:
  "additional checkbox =
     map fst (filter (\<lambda>(d, potency). \<not> checkbox d \<and> checkbox (d @ '' (new)'')) ldl_therapies)"
proof -
  have "filter (\<lambda>d. d \<notin> set (on_therapy checkbox) \<and> checkbox (d @ '' (new)''))
          (map fst ldl_therapies)
        = filter (\<lambda>d. \<not> checkbox d \<and> checkbox (d @ '' (new)'')) (map fst ldl_therapies)"
    by (rule filter_cong) (auto simp add: on_therapy_def)
  then show ?thesis
    by (simp add: additional_def filter_map comp_def case_prod_unfold)
qed

lemma additional_disjoint: "set (additional checkbox) \<inter> set (on_therapy checkbox) = {}"
  by (auto simp add: additional_def)

text \<open>
  Claim C8.  For every baseline LDL-C and every state of the check boxes the derived final
  LDL-C is a value, never an error, and at least 1.0 mmol/L.  It is the two-stage stack of
  the specification: the therapies already active at full potency, the floor of 1.0, then
  the newly added therapies at half potency, and the floor again.  The newly added
  therapies are disjoint from the active ones.
\<close>

theorem final_ldl_two_stage_floor:
  "final_ldl checkbox baseline_ldl =
     Inr (spec_final_ldl (filter (\<lambda>(d, potency). checkbox d) ldl_therapies)
            (filter (\<lambda>(d, potency). \<not> checkbox d \<and> checkbox (d @ '' (new)'')) ldl_therapies)
            baseline_ldl)
   \<and> 1 \<le> spec_final_ldl (filter (\<lambda>(d, potency). checkbox d) ldl_therapies)
            (filter (\<lambda>(d, potency). \<not> checkbox d \<and> checkbox (d @ '' (new)'')) ldl_therapies)
            baseline_ldl
   \<and> set (additional checkbox) \<inter> set (on_therapy checkbox) = {}"
proof -
  have "adjusted_ldl checkbox baseline_ldl
          = Inr (max (spec_stack 1 (filter (\<lambda>(d, potency). checkbox d) ldl_therapies)
                   baseline_ldl) 1)"
    by (simp add: adjusted_ldl_def on_therapy_entries apply_on_therapy_entries)
  then have "final_ldl checkbox baseline_ldl =
     Inr (spec_final_ldl (filter (\<lambda>(d, potency). checkbox d) ldl_therapies)
            (filter (\<lambda>(d, potency). \<not> checkbox d \<and> checkbox (d @ '' (new)'')) ldl_therapies)
            baseline_ldl)"
    by (simp add: final_ldl_def additional_entries apply_additional_entries spec_final_ldl_def)
  then show ?thesis
    by (simp add: additional_disjoint) (simp add: spec_final_ldl_def)
qed

lemma final_ldl_example:
  "final_ldl (\<lambda>d. d = ''Ezetimibe'' \<or> d = ''PCSK9 inhibitor (new)'') 3.5 = Inr 1.96"
  by (simp add: final_ldl_def adjusted_ldl_def on_therapy_def additional_def ldl_therapies_def
      subscript_def)

theorem final_ldl_two_stage_floor_witness:
  "final_ldl (\<lambda>d. d = ''Atorvastatin 80 mg'' \<or> d = ''PCSK9 inhibitor (new)'') 3.5 = Inr 1.225
   \<and> set (additional (\<lambda>d. d = ''Atorvastatin 80 mg'' \<or> d = ''PCSK9 inhibitor (new)''))
       \<inter> set (on_therapy (\<lambda>d. d = ''Atorvastatin 80 mg'' \<or> d = ''PCSK9 inhibitor (new)'')) = {}"
proof -
  have "spec_final_ldl
          (filter (\<lambda>(d, potency). d = ''Atorvastatin 80 mg'' \<or> d = ''PCSK9 inhibitor (new)'')
             ldl_therapies)
          (filter (\<lambda>(d, potency). \<not> (d = ''Atorvastatin 80 mg'' \<or> d = ''PCSK9 inhibitor (new)'')
               \<and> (d @ '' (new)'' = ''Atorvastatin 80 mg''
                    \<or> d @ '' (new)'' = ''PCSK9 inhibitor (new)'')) ldl_therapies) 3.5 = 1.225"
    by (simp add: spec_final_ldl_def ldl_therapies_def)
  with final_ldl_two_stage_floor
    [of "\<lambda>d. d = ''Atorvastatin 80 mg'' \<or> d = ''PCSK9 inhibitor (new)''" "3.5"]
  show ?thesis
    by simp
qed

section \<open>The floor without therapy\<close>






section \<open>The names of the catalog\<close>

lemma interventions_distinct: "distinct (map name interventions)"
  by (simp add: interventions_def)

lemma find_by_name:
  assumes "distinct (map name ivs)" and "iv \<in> set ivs"
  shows "find (\<lambda>x. name x = name iv) ivs = Some iv"
  using assms by (induction ivs) force+

section \<open>The baseline risk\<close>

lemma estimate_smart_risk_eq:
  assumes "0 \<le> crp"
  shows "estimate_smart_risk age sex sbp total_chol hdl smoker diabetes egfr crp vasc_count =
     Inr (py_round1 ((1 - 0.900 powr exp (linear_predictor age (if sex = Male then 1 else 0) sbp
            total_chol hdl (if smoker then 1 else 0) (if diabetes then 1 else 0) egfr
            (ln (crp + 1)) vasc_count - 5.8)) * 100))"
proof (cases "crp = 0")
  case True
  then show ?thesis
    by (simp add: estimate_smart_risk_def Let_def)
next
  case False
  with assms have "py_log (crp + 1) = Inr (ln (crp + 1))"
    by (simp add: py_log_def)
  with False show ?thesis
    by (simp add: estimate_smart_risk_def Let_def)
qed

section \<open>The five-year risk\<close>

lemma exp_ge_256:
  assumes "8 \<le> x"
  shows "256 \<le> exp (x::real)"
proof -
  have "(2::real) \<le> exp 1"
    using exp_ge_add_one_self [of "1::real"] by simp
  then have "(2::real) ^ 8 \<le> exp 1 ^ 8"
    by (intro power_mono) simp_all
  also have "exp (1::real) ^ 8 = exp 8"
    using exp_of_nat_mult [of 8 "1::real"] by simp
  also have "exp 8 \<le> exp x"
    using assms by simp
  finally show ?thesis
    by simp
qed

lemma powr_tiny:
  assumes "73 \<le> e"
  shows "(9 / 10) powr e < (1 / 2000 :: real)"
proof -
  have "(9 / 10) powr e \<le> (9 / 10 :: real) powr 73"
    using assms by (intro powr_mono') simp_all
  also have "(9 / 10 :: real) powr 73 = (9 / 10) ^ 73"
    by simp
  also have "\<dots> < 1 / 2000"
    by (simp add: power_divide)
  finally show ?thesis .
qed

lemma powr_unit_interval:
  "0 < (9 / 10 :: real) powr exp x \<and> (9 / 10 :: real) powr exp x < 1"
proof -
  have "ln (9 / 10 :: real) < 0"
    by simp
  then have "exp x * ln (9 / 10 :: real) < 0"
    by (simp add: mult_pos_neg)
  then show ?thesis
    by (simp add: powr_def)
qed

lemma estimate_5yr_from_10yr_full: "estimate_5yr_from_10yr 100 = Inr 100"
  by (simp add: estimate_5yr_from_10yr_def py_round1_def round_half_even_def Let_def)

text \<open>
  Claim C4, as stated, fails.  For a man of 90 with a systolic pressure of 220, total
  cholesterol 10, HDL 0.5, smoking, diabetic, eGFR 15, CRP 2 and three vascular beds the
  10-year risk rounds to 100.0, and the 5-year risk derived from it is 100.0 as well: not
  strictly less.
\<close>

theorem risk5_equals_risk10_counterexample:
  "estimate_smart_risk 90 Male 220 10 0.5 True True 15 2 3 = Inr 100
   \<and> estimate_5yr_from_10yr 100 = Inr 100"
proof -
  define lp where "lp = linear_predictor 90 1 220 10 0.5 1 1 15 (ln (2 + 1)) 3"
  have "lp - 5.8 = 357 / 40 + ln 3 / 4"
    by (simp add: lp_def linear_predictor_def)
  moreover have "0 \<le> ln (3::real)"
    by simp
  ultimately have "8 \<le> lp - 5.8"
    by linarith
  then have "73 \<le> exp (lp - 5.8)"
    using exp_ge_256 [of "lp - 5.8"] by simp
  then have small: "(9 / 10) powr exp (lp - 5.8) < (1 / 2000 :: real)"
    by (rule powr_tiny)
  have pos: "0 < (9 / 10 :: real) powr exp (lp - 5.8)"
    using powr_unit_interval [of "lp - 5.8"] by simp
  define t where "t = (9 / 10 :: real) powr exp (lp - 5.8)"
  have "py_round1 ((1 - t) * 100) = real_of_int 1000 / 10"
  proof (rule py_round1_unique)
    show "real_of_int 1000 / 10 - 1 / 20 < (1 - t) * 100"
      using small unfolding t_def [symmetric] by simp
    show "(1 - t) * 100 < real_of_int 1000 / 10 + 1 / 20"
      using pos unfolding t_def [symmetric] by simp
  qed
  then have "estimate_smart_risk 90 Male 220 10 0.5 True True 15 2 3 = Inr 100"
    by (simp add: estimate_smart_risk_eq lp_def t_def)
  then show ?thesis
    by (simp add: estimate_5yr_from_10yr_full)
qed

lemma round_half_even_below:
  assumes "x < of_int k - 1 / 2"
  shows "round_half_even x < k"
proof -
  from round_half_even_bounds [of x] assms
  have "real_of_int (round_half_even x) < of_int k"
    by linarith
  then show ?thesis
    by simp
qed

lemma risk10_tenths:
  "\<exists>k. 0 \<le> k \<and> k \<le> 1000
       \<and> py_round1 ((1 - (9 / 10) powr exp x) * 100) = real_of_int k / 10"
proof -
  let ?y = "(1 - (9 / 10) powr exp x) * 100"
  let ?k = "round_half_even (?y * 10)"
  have lo: "0 \<le> ?y * 10" and hi: "?y * 10 \<le> 1000"
    using powr_unit_interval [of x] by simp_all
  have "round_half_even 0 \<le> ?k"
    using lo by (rule round_half_even_mono)
  moreover have "?k \<le> round_half_even 1000"
    using hi by (rule round_half_even_mono)
  moreover have "round_half_even 0 = 0" and "round_half_even 1000 = 1000"
    by (simp_all add: round_half_even_def Let_def)
  ultimately have "0 \<le> ?k \<and> ?k \<le> 1000"
    by simp
  then show ?thesis
    by (intro exI [of _ ?k]) (simp add: py_round1_def)
qed

lemma estimate_5yr_from_10yr_tenths:
  assumes "0 \<le> k" and "k \<le> 1000"
  shows "\<exists>risk5. estimate_5yr_from_10yr (real_of_int k / 10) = Inr risk5
           \<and> risk5 \<le> real_of_int k / 10
           \<and> (2 \<le> k \<and> k \<le> 999 \<longrightarrow> risk5 < real_of_int k / 10)"
proof -
  define q where "q = 1 - real_of_int k / 1000"
  have q: "0 \<le> q" "q \<le> 1"
    using assms by (simp_all add: q_def)
  let ?y = "(1 - sqrt q) * 100"
  have est: "estimate_5yr_from_10yr (real_of_int k / 10) = Inr (py_round1 ?y)"
    using q powr_half_sqrt [of q] by (simp add: estimate_5yr_from_10yr_def q_def Let_def)
  have "q\<^sup>2 \<le> q"
    using q by (simp add: power2_eq_square mult_left_le)
  then have "q \<le> sqrt q"
    by (rule real_le_rsqrt)
  then have "?y \<le> real_of_int k / 10"
    by (simp add: q_def)
  then have "py_round1 ?y \<le> py_round1 (real_of_int k / 10)"
    by (rule py_round1_mono)
  then have le: "py_round1 ?y \<le> real_of_int k / 10"
    by simp
  have lt: "py_round1 ?y < real_of_int k / 10" if "2 \<le> k" and "k \<le> 999"
  proof -
    have "1 / 1000 \<le> q" and "1 / 1000 \<le> 999 / 1000 - q"
      using that by (simp_all add: q_def)
    then have "1 / 1000 * (1 / 1000) \<le> q * (999 / 1000 - q)"
      by (intro mult_mono) simp_all
    then have "(q + 1 / 2000)\<^sup>2 < q"
      by (simp add: power2_eq_square algebra_simps)
    then have "q + 1 / 2000 < sqrt q"
      by (rule real_less_rsqrt)
    then have "?y * 10 < real_of_int k - 1 / 2"
      by (simp add: q_def)
    then have "round_half_even (?y * 10) < k"
      by (rule round_half_even_below)
    then have "real_of_int (round_half_even (?y * 10)) < real_of_int k"
      by simp
    then show ?thesis
      by (simp add: py_round1_def)
  qed
  from est le lt show ?thesis
    by blast
qed

lemma estimate_5yr_from_10yr_lowest: "estimate_5yr_from_10yr 0.1 = Inr 0.1"
proof -
  have "(9985 / 10000)\<^sup>2 < (999 / 1000 :: real)"
    by (simp add: power2_eq_square)
  then have lo: "9985 / 10000 < sqrt (999 / 1000)"
    by (rule real_less_rsqrt)
  have "(999 / 1000 :: real) < (9995 / 10000)\<^sup>2"
    by (simp add: power2_eq_square)
  then have hi: "sqrt (999 / 1000) < 9995 / 10000"
    by (intro real_less_lsqrt) simp_all
  have "py_round1 ((1 - sqrt (999 / 1000)) * 100) = real_of_int 1 / 10"
  proof (rule py_round1_unique)
    show "real_of_int 1 / 10 - 1 / 20 < (1 - sqrt (999 / 1000)) * 100"
      using hi by simp
    show "(1 - sqrt (999 / 1000)) * 100 < real_of_int 1 / 10 + 1 / 20"
      using lo by simp
  qed
  moreover have "(999 / 1000 :: real) powr (1 / 2) = sqrt (999 / 1000)"
    by (rule powr_half_sqrt) simp
  ultimately show ?thesis
    by (simp add: estimate_5yr_from_10yr_def Let_def)
qed

text \<open>
  Claim C4, amended.  For every profile with a CRP that is not negative both estimators
  return a value, the rounded 10-year risk lies between 0 and 100, and the rounded 5-year
  risk is at most the rounded 10-year risk; it is strictly less whenever the rounded
  10-year risk is above 0.1 and below 100.
\<close>

theorem risk5_at_most_risk10:
  assumes "0 \<le> crp"
  shows "\<exists>risk10 risk5.
       estimate_smart_risk age sex sbp total_chol hdl smoker diabetes egfr crp vasc_count = Inr risk10
     \<and> estimate_5yr_from_10yr risk10 = Inr risk5
     \<and> 0 \<le> risk10 \<and> risk10 \<le> 100
     \<and> risk5 \<le> risk10
     \<and> (0.1 < risk10 \<and> risk10 < 100 \<longrightarrow> risk5 < risk10)"
proof -
  define x where "x = linear_predictor age (if sex = Male then 1 else 0) sbp total_chol hdl
      (if smoker then 1 else 0) (if diabetes then 1 else 0) egfr (ln (crp + 1)) vasc_count - 5.8"
  obtain k where k: "0 \<le> k" "k \<le> 1000"
    and r10: "py_round1 ((1 - (9 / 10) powr exp x) * 100) = real_of_int k / 10"
    using risk10_tenths [of x] by blast
  have est: "estimate_smart_risk age sex sbp total_chol hdl smoker diabetes egfr crp vasc_count
               = Inr (real_of_int k / 10)"
    using r10 by (simp add: estimate_smart_risk_eq [OF assms] x_def)
  obtain risk5 where r5: "estimate_5yr_from_10yr (real_of_int k / 10) = Inr risk5"
    and le: "risk5 \<le> real_of_int k / 10"
    and lt: "2 \<le> k \<and> k \<le> 999 \<longrightarrow> risk5 < real_of_int k / 10"
    using estimate_5yr_from_10yr_tenths [OF k] by blast
  have "risk5 < real_of_int k / 10" if "0.1 < real_of_int k / 10" and "real_of_int k / 10 < 100"
  proof -
    from that have "1 < real_of_int k" and "real_of_int k < 1000"
      by simp_all
    then have "2 \<le> k \<and> k \<le> 999"
      by linarith
    with lt show ?thesis
      by simp
  qed
  moreover have "0 \<le> real_of_int k / 10" and "real_of_int k / 10 \<le> 100"
    using k by simp_all
  ultimately show ?thesis
    using est r5 le by blast
qed

theorem risk5_at_most_risk10_witness:
  "(0::real) \<le> 2
   \<and> (\<exists>risk10 risk5.
       estimate_smart_risk 60 Male 145 5 1 False False 80 2 0 = Inr risk10
     \<and> estimate_5yr_from_10yr risk10 = Inr risk5
     \<and> 0 \<le> risk10 \<and> risk10 \<le> 100
     \<and> risk5 \<le> risk10)"
proof -
  have h: "(0::real) \<le> 2"
    by simp
  from h risk5_at_most_risk10 [OF h, of 60 Male 145 5 1 False False 80 0]
  show ?thesis
    by blast
qed

section \<open>Binary floating point: rounding\<close>

lemma double_zero [simp]: "double 0 = 0"
  by (simp add: double_def)

lemma two_powr_int: "(2::real) powr real_of_int k = 2 powi k"
  by (simp add: powr_real_of_int power_int_def power_one_over [symmetric] inverse_eq_divide)

lemma floor_log2_eq:
  assumes "2 powi e \<le> \<bar>x\<bar>" and "\<bar>x\<bar> < 2 powi (e + 1)"
  shows "\<lfloor>log 2 \<bar>x::real\<bar>\<rfloor> = e"
proof -
  have "0 < (2::real) powi e"
    by simp
  with assms(1) have "0 < \<bar>x\<bar>"
    by linarith
  moreover have "2 powr real_of_int e \<le> \<bar>x\<bar>" and "\<bar>x\<bar> < 2 powr real_of_int (e + 1)"
    using assms by (simp_all only: two_powr_int)
  ultimately show ?thesis
    using floor_log_eq_powr_iff [of "\<bar>x\<bar>" 2 e] by simp
qed

lemma double_eval:
  assumes "2 powi e \<le> \<bar>x\<bar>" and "\<bar>x\<bar> < 2 powi (e + 1)" and "- 1022 \<le> e"
  shows "double x = of_int (round_half_even (x / 2 powi (e - 52))) * 2 powi (e - 52)"
proof -
  have "0 < (2::real) powi e"
    by simp
  with assms(1) have "0 < \<bar>x\<bar>"
    by linarith
  then have "x \<noteq> 0"
    by simp
  moreover have "max \<lfloor>log 2 \<bar>x\<bar>\<rfloor> (- 1022) = e"
    using floor_log2_eq [OF assms(1,2)] assms(3) by simp
  ultimately show ?thesis
    by (simp add: double_def Let_def)
qed

lemma double_error:
  assumes "2 powi (- 1022) \<le> \<bar>x\<bar>"
  shows "\<bar>double x - x\<bar> \<le> \<bar>x\<bar> / 2 ^ 53"
proof -
  define e where "e = \<lfloor>log 2 \<bar>x\<bar>\<rfloor>"
  have pos: "0 < \<bar>x\<bar>"
    using assms zero_less_power_int [of "2::real" "- 1022"] by linarith
  have "2 powr real_of_int e \<le> \<bar>x\<bar>"
    using pos floor_log_eq_powr_iff [of "\<bar>x\<bar>" 2 e] by (simp add: e_def)
  then have lo: "2 powi e \<le> \<bar>x\<bar>"
    by (simp only: two_powr_int)
  have "real_of_int (- 1022) \<le> log 2 \<bar>x\<bar>"
    using assms pos by (simp add: le_log_iff two_powr_int del: of_int_minus)
  then have e: "- 1022 \<le> e"
    unfolding e_def by (simp add: le_floor_iff)
  define u where "u = (2::real) powi (e - 52)"
  have u: "0 < u"
    by (simp add: u_def)
  have d: "double x = of_int (round_half_even (x / u)) * u"
    using pos e by (simp add: double_def Let_def e_def [symmetric] u_def max_def)
  have "\<bar>real_of_int (round_half_even (x / u)) - x / u\<bar> \<le> 1 / 2"
    using round_half_even_bounds [of "x / u"] by linarith
  then have "\<bar>real_of_int (round_half_even (x / u)) - x / u\<bar> * u \<le> 1 / 2 * u"
    using u by (intro mult_right_mono) simp_all
  moreover have "\<bar>real_of_int (round_half_even (x / u)) - x / u\<bar> * u = \<bar>double x - x\<bar>"
  proof -
    have "(real_of_int (round_half_even (x / u)) - x / u) * u = double x - x"
      using u by (simp add: d left_diff_distrib)
    then have "\<bar>double x - x\<bar> = \<bar>real_of_int (round_half_even (x / u)) - x / u\<bar> * \<bar>u\<bar>"
      by (simp only: abs_mult [symmetric])
    with u show ?thesis
      by simp
  qed
  moreover have "1 / 2 * u = 2 powi e / 2 ^ 53"
    by (simp add: u_def power_int_diff)
  moreover have "2 powi e / 2 ^ 53 \<le> \<bar>x\<bar> / 2 ^ 53"
    using lo by (simp add: divide_right_mono)
  ultimately show ?thesis
    by linarith
qed

lemma double_one [simp]: "double 1 = 1"
  using double_eval [of 0 1] by (simp add: power_int_minus round_half_even_def Let_def)

lemma normal_small: "(2::real) powi (- 1022) \<le> 1 / 1024"
proof -
  have "(2::real) powi (- 1022) \<le> 2 powi (- 10)"
    by (rule power_int_increasing) simp_all
  then show ?thesis
    by (simp add: power_int_minus)
qed

lemma float_round1_zero [simp]: "float_round1 0 = 0"
  by (simp add: float_round1_def round_half_even_def)

lemma double_relative:
  assumes "1 / 1024 \<le> y"
  shows "y * (1 - 1 / 2 ^ 53) \<le> double y \<and> double y \<le> y * (1 + 1 / 2 ^ 53)"
proof -
  have "2 powi (- 1022) \<le> \<bar>y\<bar>"
    using assms normal_small by linarith
  then have "\<bar>double y - y\<bar> \<le> \<bar>y\<bar> / 2 ^ 53"
    by (rule double_error)
  moreover have "\<bar>y\<bar> = y"
    using assms by simp
  ultimately have "double y - y \<le> y / 2 ^ 53" and "y - double y \<le> y / 2 ^ 53"
    by linarith+
  then show ?thesis
    by (simp add: algebra_simps)
qed

lemma apply_interventions_double_none [simp]:
  "apply_interventions_double ivs [] h r = r"
  by (induction ivs arbitrary: r) simp_all

lemma remaining_risk_double_identity:
  "remaining_risk_double b h [] bl bl s s = double (double (double (b / 100)))"
  by (simp add: remaining_risk_double_def ldl_rrr_double_def bp_rrr_double_def)

lemma compose_final_risk_double_eq:
  "compose_final_risk_double b h sel bl fl cur tgt =
     (let f = float_round1 (double (remaining_risk_double b h sel bl fl cur tgt * 100));
          a = float_round1 (double (b - f))
      in Inr \<lparr>final_risk = f, arr = a,
              rrr = (if b \<noteq> 0 then float_round1 (double (double (a / b) * 100)) else 0)\<rparr>)"
  by (simp add: compose_final_risk_double_def float_div_def Let_def)

lemma round_trip_through_percent:
  assumes "1 \<le> k" and "k \<le> 10000000"
  shows "round_half_even
           (double (double (double (double (double (real_of_int k / 10) / 100))) * 100) * 10) = k"
proof -
  define t where "t = real_of_int k / 10"
  define b where "b = double t"
  define r0 where "r0 = double (b / 100)"
  define r1 where "r1 = double r0"
  define r2 where "r2 = double r1"
  define f where "f = double (r2 * 100)"
  have t: "1 / 10 \<le> t" "t \<le> 1000000"
    using assms by (simp_all add: t_def)
  have b: "t * (1 - 1 / 2 ^ 53) \<le> b \<and> b \<le> t * (1 + 1 / 2 ^ 53)"
    unfolding b_def using t by (intro double_relative) simp
  then have "1 / 1024 \<le> b / 100"
    using t by simp
  then have r0: "b / 100 * (1 - 1 / 2 ^ 53) \<le> r0 \<and> r0 \<le> b / 100 * (1 + 1 / 2 ^ 53)"
    unfolding r0_def by (rule double_relative)
  then have "1 / 1024 \<le> r0"
    using b t by simp
  then have r1: "r0 * (1 - 1 / 2 ^ 53) \<le> r1 \<and> r1 \<le> r0 * (1 + 1 / 2 ^ 53)"
    unfolding r1_def by (rule double_relative)
  then have "1 / 1024 \<le> r1"
    using r0 b t by simp
  then have r2: "r1 * (1 - 1 / 2 ^ 53) \<le> r2 \<and> r2 \<le> r1 * (1 + 1 / 2 ^ 53)"
    unfolding r2_def by (rule double_relative)
  then have "1 / 1024 \<le> r2 * 100"
    using r1 r0 b t by simp
  then have f: "r2 * 100 * (1 - 1 / 2 ^ 53) \<le> f \<and> f \<le> r2 * 100 * (1 + 1 / 2 ^ 53)"
    unfolding f_def by (rule double_relative)
  have "real_of_int k - 1 / 2 < f * 10" and "f * 10 < real_of_int k + 1 / 2"
    using f r2 r1 r0 b t by (simp_all add: t_def)
  then have "round_half_even (f * 10) = k"
    by (rule round_half_even_unique)
  then show ?thesis
    by (simp add: f_def r2_def r1_def r0_def b_def t_def)
qed

section \<open>The identity case\<close>

text \<open>
  Claim C5.  The baseline risk of the script is always a result of \<^verbatim>\<open>round(..., 1)\<close> on
  a percentage (lines 41, 46 and 113 to 118).  For every such baseline risk, composing
  with an empty selection, \<open>finalLdl = baselineLdl\<close> and \<open>sbpTarget = sbpCurrent\<close> returns, in
  binary64, the baseline risk itself as the final risk, \<open>arr = 0\<close> and \<open>rrr = 0\<close>.
\<close>

theorem identity_on_rounded_baseline:
  assumes "0 \<le> x" and "x \<le> 1000000"
  shows "compose_final_risk_double (float_round1 x) h [] bl bl s s
           = Inr \<lparr>final_risk = float_round1 x, arr = 0, rrr = 0\<rparr>"
proof -
  define k where "k = round_half_even (x * 10)"
  define b where "b = double (real_of_int k / 10)"
  have b: "float_round1 x = b"
    by (simp add: float_round1_def k_def b_def)
  have "round_half_even 0 \<le> k" and "k \<le> round_half_even 10000000"
    unfolding k_def using assms by (intro round_half_even_mono; simp)+
  moreover have "round_half_even 0 = 0" and "round_half_even 10000000 = 10000000"
    by (simp_all add: round_half_even_def Let_def)
  ultimately have k: "0 \<le> k" "k \<le> 10000000"
    by simp_all
  have final: "float_round1 (double (remaining_risk_double b h [] bl bl s s * 100)) = b"
  proof (cases "k = 0")
    case True
    then show ?thesis
      by (simp add: remaining_risk_double_identity b_def)
  next
    case False
    with k have "1 \<le> k"
      by simp
    then have "round_half_even
           (double (double (double (double (double (real_of_int k / 10) / 100))) * 100) * 10) = k"
      using k(2) by (rule round_trip_through_percent)
    then show ?thesis
      by (simp add: remaining_risk_double_identity float_round1_def b_def)
  qed
  show ?thesis
    unfolding b compose_final_risk_double_eq final by (simp add: Let_def)
qed

theorem identity_on_rounded_baseline_witness:
  "(0::real) \<le> 23.94 \<and> (23.94::real) \<le> 1000000
   \<and> compose_final_risk_double (float_round1 23.94) H10yr [] 3.5 3.5 145 145
       = Inr \<lparr>final_risk = float_round1 23.94, arr = 0, rrr = 0\<rparr>"
proof -
  have h1: "(0::real) \<le> 23.94" and h2: "(23.94::real) \<le> 1000000"
    by simp_all
  from h1 h2 identity_on_rounded_baseline [OF h1 h2, of H10yr "3.5" 145]
  show ?thesis
    by blast
qed

section \<open>The per-intervention step\<close>

lemma spec_apply_in_catalog_order:
  assumes "set ivs \<subseteq> set interventions"
  shows "spec_apply_interventions_double (filter (\<lambda>n. n \<in> set sel) (map name ivs)) h r
           = Some (apply_interventions_double ivs sel h r)"
  using assms
proof (induction ivs arbitrary: r)
  case Nil
  show ?case by simp
next
  case (Cons iv ivs)
  then have "iv \<in> set interventions"
    by simp
  then have "find (\<lambda>x. name x = name iv) interventions = Some iv"
    by (rule find_by_name [OF interventions_distinct])
  with Cons show ?case
    by (simp add: Let_def)
qed

lemma in_catalog_order_set:
  assumes "set sel \<subseteq> name ` set interventions"
  shows "set (in_catalog_order sel) = set sel"
  using assms by (auto simp add: in_catalog_order_def)

lemma in_catalog_order_distinct: "distinct (in_catalog_order sel)"
  unfolding in_catalog_order_def using interventions_distinct by (rule distinct_filter)

text \<open>
  Claim C3.  For a selection drawn from the catalog the script multiplies the remaining
  risk fraction \<open>baselineRisk / 100\<close> by \<open>1 - arr / 100\<close> once for each selected intervention,
  in the order of the catalog, where \<open>arr\<close> is the 5-year value for the 5-year horizon and
  the lifetime value for the 10-year and lifetime horizons; then it applies the LDL and BP
  factors and returns \<open>finalRisk = round (r * 100, 1)\<close> and
  \<open>arr = round (baselineRisk - finalRisk, 1)\<close>, every operation in binary64.
\<close>

theorem composition_in_catalog_order:
  assumes "set selected_iv \<subseteq> name ` set interventions"
  shows "set (in_catalog_order selected_iv) = set selected_iv
     \<and> distinct (in_catalog_order selected_iv)
     \<and> (\<exists>r res.
           spec_apply_interventions_double (in_catalog_order selected_iv) horizon
               (double (baseline_risk / 100)) = Some r
         \<and> compose_final_risk_double baseline_risk horizon selected_iv baseline_ldl fl cur tgt
               = Inr res
         \<and> final_risk res =
             float_round1 (double (double (double (r
                 * double (1 - double (min (double (22 * double (baseline_ldl - fl))) 35 / 100)))
                 * double (1 - double (min (double (15 * double (real_of_int (cur - tgt) / 10))) 20
                                         / 100))) * 100))
         \<and> arr res = float_round1 (double (baseline_risk - final_risk res)))"
proof -
  have "spec_apply_interventions_double (in_catalog_order selected_iv) horizon
            (double (baseline_risk / 100))
          = Some (apply_interventions_double interventions selected_iv horizon
                    (double (baseline_risk / 100)))"
    unfolding in_catalog_order_def by (rule spec_apply_in_catalog_order) simp
  then show ?thesis
    using in_catalog_order_set [OF assms] in_catalog_order_distinct [of selected_iv]
    by (simp add: compose_final_risk_double_eq remaining_risk_double_def ldl_rrr_double_def
        bp_rrr_double_def Let_def)
qed

theorem composition_in_catalog_order_witness:
  "set [''Stress reduction'', ''Smoking cessation''] \<subseteq> name ` set interventions
   \<and> in_catalog_order [''Stress reduction'', ''Smoking cessation'']
       = [''Smoking cessation'', ''Stress reduction'']
   \<and> (\<exists>r res.
           spec_apply_interventions_double (in_catalog_order [''Stress reduction'', ''Smoking cessation''])
               H10yr (double (20 / 100)) = Some r
         \<and> compose_final_risk_double 20 H10yr [''Stress reduction'', ''Smoking cessation'']
               3.5 2.0 145 120 = Inr res
         \<and> final_risk res =
             float_round1 (double (double (double (r
                 * double (1 - double (min (double (22 * double (3.5 - 2.0))) 35 / 100)))
                 * double (1 - double (min (double (15 * double (real_of_int (145 - 120) / 10))) 20
                                         / 100))) * 100))
         \<and> arr res = float_round1 (double (20 - final_risk res)))"
proof -
  have h: "set [''Stress reduction'', ''Smoking cessation''] \<subseteq> name ` set interventions"
    by (simp add: interventions_def)
  have o: "in_catalog_order [''Stress reduction'', ''Smoking cessation'']
       = [''Smoking cessation'', ''Stress reduction'']"
    by (simp add: in_catalog_order_def interventions_def)
  from h o composition_in_catalog_order [OF h, of H10yr 20 "3.5" "2.0" 145 120]
  show ?thesis
    by blast
qed

text \<open>
  The order of the factors is part of the result: for a baseline risk of 37.5 and the
  10-year horizon, the two selected interventions below give a final risk of 31.4 in the
  order of the catalog and 31.3 in the other order.
\<close>

lemma selection_order_matters:
  "spec_apply_interventions_double
       [''BP control (ACEi/ARB '' @ [CHR 0xC3, CHR 0x82, CHR 0xC2, CHR 0xB1] @ '' CCB)'',
        ''Icosapent ethyl (TG '' @ [CHR 0xC3, CHR 0xA2, CHR 0xE2, CHR 0x80, CHR 0xB0, CHR 0xC2, CHR 0xA5] @ ''1.5)''] H10yr (double (37.5 / 100))
     = Some (2823756966361301 / 2 ^ 53)
   \<and> spec_apply_interventions_double
       [''Icosapent ethyl (TG '' @ [CHR 0xC3, CHR 0xA2, CHR 0xE2, CHR 0x80, CHR 0xB0, CHR 0xC2, CHR 0xA5] @ ''1.5)'',
        ''BP control (ACEi/ARB '' @ [CHR 0xC3, CHR 0x82, CHR 0xC2, CHR 0xB1] @ '' CCB)''] H10yr (double (37.5 / 100))
     = Some (5647513932722601 / 2 ^ 54)
   \<and> float_round1 (double (2823756966361301 / 2 ^ 53 * 100)) = double 31.4
   \<and> float_round1 (double (5647513932722601 / 2 ^ 54 * 100)) = double 31.3"
proof -
  have e0: "double (3 / 8) = (3 / 8)"
    using double_eval [of "- 2" "3 / 8"]
    by (simp add: power_int_minus round_half_even_def Let_def)
  have e1: "double (3 / 25) = (1080863910568919 / 9007199254740992)"
    using double_eval [of "- 4" "3 / 25"]
    by (simp add: power_int_minus round_half_even_def Let_def)
  have e2: "double (7926335344172073 / 9007199254740992) = (7926335344172073 / 9007199254740992)"
    using double_eval [of "- 1" "7926335344172073 / 9007199254740992"]
    by (simp add: power_int_minus round_half_even_def Let_def)
  have e3: "double (23779006032516219 / 72057594037927936) = (5944751508129055 / 18014398509481984)"
    using double_eval [of "- 2" "23779006032516219 / 72057594037927936"]
    by (simp add: power_int_minus round_half_even_def Let_def)
  have e4: "double (1 / 20) = (3602879701896397 / 72057594037927936)"
    using double_eval [of "- 5" "1 / 20"]
    by (simp add: power_int_minus round_half_even_def Let_def)
  have e5: "double (68454714336031539 / 72057594037927936) = (4278419646001971 / 4503599627370496)"
    using double_eval [of "- 1" "68454714336031539 / 72057594037927936"]
    by (simp add: power_int_minus round_half_even_def Let_def)
  have e6: "double (25434141642979194720637052367405 / 81129638414606681695789005144064) = (2823756966361301 / 9007199254740992)"
    using double_eval [of "- 2" "25434141642979194720637052367405 / 81129638414606681695789005144064"]
    by (simp add: power_int_minus round_half_even_def Let_def)
  have e7: "double (12835258938005913 / 36028797018963968) = (1604407367250739 / 4503599627370496)"
    using double_eval [of "- 2" "12835258938005913 / 36028797018963968"]
    by (simp add: power_int_minus round_half_even_def Let_def)
  have e8: "double (12717070821489595834724152411947 / 40564819207303340847894502572032) = (5647513932722601 / 18014398509481984)"
    using double_eval [of "- 2" "12717070821489595834724152411947 / 40564819207303340847894502572032"]
    by (simp add: power_int_minus round_half_even_def Let_def)
  have e9: "double (70593924159032525 / 2251799813685248) = (4412120259939533 / 140737488355328)"
    using double_eval [of "4" "70593924159032525 / 2251799813685248"]
    by (simp add: power_int_minus round_half_even_def Let_def)
  have e10: "double (157 / 5) = (4419157134357299 / 140737488355328)"
    using double_eval [of "4" "157 / 5"]
    by (simp add: power_int_minus round_half_even_def Let_def)
  have e11: "double (141187848318065025 / 4503599627370496) = (1103030064984883 / 35184372088832)"
    using double_eval [of "4" "141187848318065025 / 4503599627370496"]
    by (simp add: power_int_minus round_half_even_def Let_def)
  have e12: "double (313 / 10) = (8810166771043533 / 281474976710656)"
    using double_eval [of "4" "313 / 10"]
    by (simp add: power_int_minus round_half_even_def Let_def)
  show ?thesis
    by (simp add: interventions_def float_round1_def round_half_even_def Let_def
        e0 e1 e2 e3 e4 e5 e6 e7 e8 e9 e10 e11 e12)
qed

text \<open>
  An evaluation in binary64: a baseline risk of 1.0 and a systolic pressure lowered from
  130 to 120 give a final risk of 0.9, where exact arithmetic gives 0.85 and rounds it
  to 0.8.
\<close>

lemma compose_final_risk_double_example:
  "compose_final_risk_double 1 H10yr [] 3.5 3.5 130 120
     = Inr \<lparr>final_risk = double (9 / 10), arr = double (1 / 10), rrr = 10\<rparr>"
proof -
  have e0: "double (1 / 100) = (5764607523034235 / 576460752303423488)"
    using double_eval [of "- 7" "1 / 100"]
    by (simp add: power_int_minus round_half_even_def Let_def)
  have e1: "double (5764607523034235 / 576460752303423488) = (5764607523034235 / 576460752303423488)"
    using double_eval [of "- 7" "5764607523034235 / 576460752303423488"]
    by (simp add: power_int_minus round_half_even_def Let_def)
  have e2: "double 15 = 15"
    using double_eval [of "3" "15"]
    by (simp add: power_int_minus round_half_even_def Let_def)
  have e3: "double (3 / 20) = (5404319552844595 / 36028797018963968)"
    using double_eval [of "- 3" "3 / 20"]
    by (simp add: power_int_minus round_half_even_def Let_def)
  have e4: "double (30624477466119373 / 36028797018963968) = (7656119366529843 / 9007199254740992)"
    using double_eval [of "- 1" "30624477466119373 / 36028797018963968"]
    by (simp add: power_int_minus round_half_even_def Let_def)
  have e5: "double (44134523297546034608322038175105 / 5192296858534827628530496329220096) = (1224979098644775 / 144115188075855872)"
    using double_eval [of "- 7" "44134523297546034608322038175105 / 5192296858534827628530496329220096"]
    by (simp add: power_int_minus round_half_even_def Let_def)
  have e6: "double (30624477466119375 / 36028797018963968) = (1914029841632461 / 2251799813685248)"
    using double_eval [of "- 1" "30624477466119375 / 36028797018963968"]
    by (simp add: power_int_minus round_half_even_def Let_def)
  have e7: "double (9 / 10) = (8106479329266893 / 9007199254740992)"
    using double_eval [of "- 1" "9 / 10"]
    by (simp add: power_int_minus round_half_even_def Let_def)
  have e8: "double (900719925474099 / 9007199254740992) = (900719925474099 / 9007199254740992)"
    using double_eval [of "- 4" "900719925474099 / 9007199254740992"]
    by (simp add: power_int_minus round_half_even_def Let_def)
  have e9: "double (1 / 10) = (3602879701896397 / 36028797018963968)"
    using double_eval [of "- 4" "1 / 10"]
    by (simp add: power_int_minus round_half_even_def Let_def)
  have e10: "double (3602879701896397 / 36028797018963968) = (3602879701896397 / 36028797018963968)"
    using double_eval [of "- 4" "3602879701896397 / 36028797018963968"]
    by (simp add: power_int_minus round_half_even_def Let_def)
  have e11: "double (90071992547409925 / 9007199254740992) = 10"
    using double_eval [of "3" "90071992547409925 / 9007199254740992"]
    by (simp add: power_int_minus round_half_even_def Let_def)
  have e12: "double 10 = 10"
    using double_eval [of "3" "10"]
    by (simp add: power_int_minus round_half_even_def Let_def)
  show ?thesis
    by (simp add: compose_final_risk_double_eq remaining_risk_double_def ldl_rrr_double_def
        bp_rrr_double_def float_round1_def round_half_even_def Let_def
        e0 e1 e2 e3 e4 e5 e6 e7 e8 e9 e10 e11 e12)
qed

section \<open>The baseline risk in binary floating point\<close>

lemma double_one_fifth: "double (1 / 5) = 3602879701896397 / 2 ^ 54"
  using double_eval [of "- 3" "1 / 5"]
  by (simp add: power_int_minus round_half_even_def Let_def)

lemma double_one_fiftieth: "double (1 / 50) = 5764607523034235 / 2 ^ 58"
  using double_eval [of "- 6" "1 / 50"]
  by (simp add: power_int_minus round_half_even_def Let_def)

lemma double_three_halves: "double (3 / 2) = 3 / 2"
  using double_eval [of 0 "3 / 2"]
  by (simp add: power_int_minus round_half_even_def Let_def)

text \<open>
  Claim C2, as stated, fails in its last part.  In binary64 the eGFR term of the script,
  \<open>0.2 * (egfr / 10)\<close>, is not the term \<open>0.02 * egfr\<close> of the specification for every eGFR:
  at an eGFR of 15 the first is 0.30000000000000004 and the second is 0.3, one unit in
  the last place apart.
\<close>

theorem egfr_term_not_bitwise_counterexample:
  "egfr_term_double 15 = 5404319552844596 / 2 ^ 54
   \<and> spec_egfr_term_double 15 = 5404319552844595 / 2 ^ 54
   \<and> egfr_term_double 15 \<noteq> spec_egfr_term_double 15"
proof -
  have "double (3602879701896397 / 2 ^ 54 * (3 / 2)) = 5404319552844596 / 2 ^ 54"
    using double_eval [of "- 2" "3602879701896397 / 2 ^ 54 * (3 / 2)"]
    by (simp add: power_int_minus round_half_even_def Let_def)
  moreover have "double (5764607523034235 / 2 ^ 58 * 15) = 5404319552844595 / 2 ^ 54"
    using double_eval [of "- 2" "5764607523034235 / 2 ^ 58 * 15"]
    by (simp add: power_int_minus round_half_even_def Let_def)
  ultimately have "egfr_term_double 15 = 5404319552844596 / 2 ^ 54"
    and "spec_egfr_term_double 15 = 5404319552844595 / 2 ^ 54"
    by (simp_all add: egfr_term_double_def spec_egfr_term_double_def double_one_fifth
        double_one_fiftieth double_three_halves)
  then show ?thesis
    by simp
qed

lemma egfr_term_double_close:
  assumes "1 \<le> g"
  shows "\<bar>egfr_term_double g - 0.02 * real_of_int g\<bar> \<le> 0.02 * real_of_int g / 2 ^ 51"
proof -
  define B where "B = double (real_of_int g / 10)"
  define T where "T = double (3602879701896397 / 2 ^ 54 * B)"
  have g: "1 \<le> real_of_int g"
    using assms by simp
  then have "1 / 1024 \<le> real_of_int g / 10"
    by simp
  then have B: "real_of_int g / 10 * (1 - 1 / 2 ^ 53) \<le> B
      \<and> B \<le> real_of_int g / 10 * (1 + 1 / 2 ^ 53)"
    unfolding B_def by (rule double_relative)
  then have "1 / 1024 \<le> 3602879701896397 / 2 ^ 54 * B"
    using g by simp
  then have T: "3602879701896397 / 2 ^ 54 * B * (1 - 1 / 2 ^ 53) \<le> T
      \<and> T \<le> 3602879701896397 / 2 ^ 54 * B * (1 + 1 / 2 ^ 53)"
    unfolding T_def by (rule double_relative)
  have "egfr_term_double g = T"
    by (simp add: egfr_term_double_def double_one_fifth T_def B_def)
  moreover have "T - 0.02 * real_of_int g \<le> 0.02 * real_of_int g / 2 ^ 51"
    and "0.02 * real_of_int g - T \<le> 0.02 * real_of_int g / 2 ^ 51"
    using T B g by simp_all
  ultimately show ?thesis
    by linarith
qed

lemma spec_egfr_term_double_close:
  assumes "1 \<le> g"
  shows "\<bar>spec_egfr_term_double g - 0.02 * real_of_int g\<bar> \<le> 0.02 * real_of_int g / 2 ^ 51"
proof -
  define T where "T = double (5764607523034235 / 2 ^ 58 * real_of_int g)"
  have g: "1 \<le> real_of_int g"
    using assms by simp
  then have "1 / 1024 \<le> 5764607523034235 / 2 ^ 58 * real_of_int g"
    by simp
  then have T: "5764607523034235 / 2 ^ 58 * real_of_int g * (1 - 1 / 2 ^ 53) \<le> T
      \<and> T \<le> 5764607523034235 / 2 ^ 58 * real_of_int g * (1 + 1 / 2 ^ 53)"
    unfolding T_def by (rule double_relative)
  have "spec_egfr_term_double g = T"
    by (simp add: spec_egfr_term_double_def double_one_fiftieth T_def)
  moreover have "T - 0.02 * real_of_int g \<le> 0.02 * real_of_int g / 2 ^ 51"
    and "0.02 * real_of_int g - T \<le> 0.02 * real_of_int g / 2 ^ 51"
    using T g by simp_all
  ultimately show ?thesis
    by linarith
qed

lemma double_pos:
  assumes "1 \<le> y"
  shows "0 < double y"
  using double_relative [of y] assms by (simp add: algebra_simps)

text \<open>
  Claim C2, amended.  For every profile with a CRP that is not negative, and library
  functions that return at the arguments in question, \<open>estimate_smart_risk\<close> returns
  \<open>round ((1 - 0.900 ** exp (lp - 5.8)) * 100, 1)\<close>, where \<open>lp\<close> is the sum of the specification
  with the eGFR term written \<open>0.2 * (egfr / 10)\<close>, evaluated from left to right in binary64,
  and the logarithm term is 0 for a CRP of zero.  The eGFR term of the script equals
  \<open>0.02 * egfr\<close> in exact arithmetic; in binary64 both that term and the term of the
  specification lie within \<open>0.02 * egfr / 2 ^ 51\<close> of it for an eGFR of at least 1.
\<close>

theorem estimate_smart_risk_double_formula:
  assumes "0 \<le> crp"
    and "m_exp (double (linear_predictor_double age (if sex = Male then 1 else 0) sbp total_chol
             hdl (if smoker then 1 else 0) (if diabetes then 1 else 0) egfr
             (if crp = 0 then 0 else m_log (double (crp + 1))) vasc_count - double 5.8)) = Inr y"
    and "m_pow (double 0.900) y = Inr z"
  shows "estimate_smart_risk_double m_log m_exp m_pow age sex sbp total_chol hdl smoker diabetes
           egfr crp vasc_count
         = Inr (float_round1 (double (double (1 - z) * 100)))
     \<and> linear_predictor_double a sv s tc h sm dv g cl vc =
         double (double (double (double (double (double (double (double (double (double
           (double 0.064 * of_int a)
           + double (double 0.34 * of_int sv))
           + double (double 0.02 * of_int s))
           + double (double 0.25 * tc))
           - double (double 0.25 * h))
           + double (double 0.44 * of_int sm))
           + double (double 0.51 * of_int dv))
           - double (double 0.2 * double (of_int g / 10)))
           + double (double 0.25 * cl))
           + double (double 0.4 * of_int vc))
     \<and> 0.2 * (real_of_int g / 10) = 0.02 * real_of_int g
     \<and> (1 \<le> g1 \<longrightarrow>
           \<bar>egfr_term_double g1 - 0.02 * real_of_int g1\<bar> \<le> 0.02 * real_of_int g1 / 2 ^ 51
         \<and> \<bar>spec_egfr_term_double g1 - 0.02 * real_of_int g1\<bar>
               \<le> 0.02 * real_of_int g1 / 2 ^ 51)"
proof -
  have "0 < double (crp + 1)"
    using assms(1) by (intro double_pos) simp
  then have pos: "\<not> double (crp + 1) \<le> 0"
    by simp
  have est: "estimate_smart_risk_double m_log m_exp m_pow age sex sbp total_chol hdl smoker
           diabetes egfr crp vasc_count
         = Inr (float_round1 (double (double (1 - z) * 100)))"
    using assms(2,3) pos
    by (cases sex; cases smoker; cases diabetes; cases "crp = 0")
      (simp_all add: estimate_smart_risk_double_def Let_def)
  have lp: "linear_predictor_double a sv s tc h sm dv g cl vc =
         double (double (double (double (double (double (double (double (double (double
           (double 0.064 * of_int a)
           + double (double 0.34 * of_int sv))
           + double (double 0.02 * of_int s))
           + double (double 0.25 * tc))
           - double (double 0.25 * h))
           + double (double 0.44 * of_int sm))
           + double (double 0.51 * of_int dv))
           - double (double 0.2 * double (of_int g / 10)))
           + double (double 0.25 * cl))
           + double (double 0.4 * of_int vc))"
    by (simp add: linear_predictor_double_def egfr_term_double_def Let_def)
  have exact: "0.2 * (real_of_int g / 10) = 0.02 * real_of_int g"
    by simp
  from est lp exact egfr_term_double_close [of g1] spec_egfr_term_double_close [of g1]
  show ?thesis
    by blast
qed

theorem estimate_smart_risk_double_formula_witness:
  "(0::real) \<le> 2
   \<and> estimate_smart_risk_double ln (\<lambda>x. Inr (exp x)) (\<lambda>x y. Inr (x powr y))
         60 Male 145 5 1 False False 80 2 0
       = Inr (float_round1 (double (double (1 - double 0.900 powr
                exp (double (linear_predictor_double 60 1 145 5 1 0 0 80 (ln (double (2 + 1))) 0
                       - double 5.8))) * 100)))
   \<and> \<bar>egfr_term_double 80 - 0.02 * real_of_int 80\<bar> \<le> 0.02 * real_of_int 80 / 2 ^ 51"
proof -
  have h: "(0::real) \<le> 2"
    by simp
  have g: "(1::int) \<le> 80"
    by simp
  from h g estimate_smart_risk_double_formula
    [where crp = 2 and m_exp = "\<lambda>x. Inr (exp x)" and m_pow = "\<lambda>x y. Inr (x powr y)"
       and m_log = ln and age = 60 and sex = Male and sbp = 145 and total_chol = 5 and hdl = 1
       and smoker = False and diabetes = False and egfr = 80 and vasc_count = 0
       and ?g1.0 = 80, OF h refl refl]
  show ?thesis
    by simp
qed

end
